theory Spec2Isabelle
  imports Main "HOL-Library.Sublist"
begin

section \<open>Data model\<close>

text \<open>
  The userscript keeps a configuration (\<open>config\<close>) holding an ordered list of mock rules,
  and a request log (\<open>requestLogs\<close>). A string is the list of its characters.
\<close>

datatype ResponseType = Json | Text

text \<open>
  \<open>interface MockRule\<close>. The fields \<open>id\<close>, \<open>enabled\<close> and \<open>method\<close> are \<open>rule_id\<close>,
  \<open>rule_enabled\<close> and \<open>rule_method\<close> here.
\<close>

record MockRule =
  rule_id :: string
  rule_enabled :: bool
  name :: string
  urlPattern :: string
  rule_method :: string
  responseType :: ResponseType
  responseData :: string
  statusCode :: int
  delay :: int

text \<open>\<open>interface RequestLog\<close>. The field \<open>id\<close> is \<open>log_id\<close> here, \<open>method\<close> is \<open>log_method\<close>.\<close>

record RequestLog =
  log_id :: string
  timestamp :: int
  url :: string
  log_method :: string
  matched :: bool
  ruleId :: "string option"

text \<open>\<open>interface ScriptConfig\<close>.\<close>

record ScriptConfig =
  enabled :: bool
  rules :: "MockRule list"
  showNotification :: bool
  logRequests :: bool

section \<open>Functions of the platform\<close>

text \<open>
  The script calls functions that the browser provides. They are not part of the script and
  enter the model as the fields of a record \<open>pf\<close>, over a type \<open>'j\<close> of parsed JSON values:
  \<^item> \<open>RegExp pf p\<close> is \<open>None\<close> when \<open>new RegExp(p)\<close> throws, and \<open>Some t\<close> when it compiles,
    \<open>t u\<close> being the result of \<open>.test(u)\<close> (the expression is built without flags, so
    \<open>test\<close> keeps no state between calls);
  \<^item> \<open>toUpperCase pf\<close> and \<open>toLowerCase pf\<close> are \<open>String.prototype.toUpperCase\<close> and
    \<open>String.prototype.toLowerCase\<close>;
  \<^item> \<open>JSON_parse pf s\<close> is \<open>None\<close> when \<open>JSON.parse(s)\<close> throws its \<open>SyntaxError\<close>, and the
    parsed value otherwise; \<open>JSON_stringify pf\<close> is \<open>JSON.stringify\<close> on parsed values.
\<close>

record 'j Platform =
  RegExp :: "string \<Rightarrow> (string \<Rightarrow> bool) option"
  toUpperCase :: "string \<Rightarrow> string"
  toLowerCase :: "string \<Rightarrow> string"
  JSON_parse :: "string \<Rightarrow> 'j option"
  JSON_stringify :: "'j \<Rightarrow> string"

text \<open>\<open>s.includes(p)\<close>: \<open>p\<close> occurs in \<open>s\<close> as a contiguous run of characters.\<close>

definition str_includes :: "string \<Rightarrow> string \<Rightarrow> bool" where
  "str_includes s p = sublist p s"

section \<open>Rule matcher\<close>

text \<open>
  The loop of \<open>matchRule\<close> over \<open>config.rules\<close>: a \<open>continue\<close> is the recursive call on the
  remaining rules, \<open>return rule\<close> ends the loop. The \<open>console.log\<close> line of a successful match
  writes to the console only and is left out.
\<close>

fun matchRules :: "'j Platform \<Rightarrow> MockRule list \<Rightarrow> string \<Rightarrow> string \<Rightarrow> MockRule option" where
  "matchRules pf [] u m = None"
| "matchRules pf (rule # rest) u m =
     (if \<not> rule_enabled rule then matchRules pf rest u m
      else if rule_method rule \<noteq> ''ALL'' \<and> rule_method rule \<noteq> toUpperCase pf m
        then matchRules pf rest u m
      else if (case RegExp pf (urlPattern rule) of
                 Some pattern \<Rightarrow> pattern u
               | None \<Rightarrow> str_includes u (urlPattern rule))
        then Some rule
      else matchRules pf rest u m)"

definition matchRule :: "'j Platform \<Rightarrow> ScriptConfig \<Rightarrow> string \<Rightarrow> string \<Rightarrow> MockRule option" where
  "matchRule pf cfg u m =
     (if \<not> enabled cfg then None else matchRules pf (rules cfg) u m)"

subsection \<open>The tests of the matcher, one by one\<close>

text \<open>
  The method test, the negation of the loop's second \<open>continue\<close> condition: the rule's
  method is \<open>ALL\<close> or is the request method in upper case.
\<close>

definition methodPasses :: "'j Platform \<Rightarrow> MockRule \<Rightarrow> string \<Rightarrow> bool" where
  "methodPasses pf rule m \<longleftrightarrow>
     rule_method rule = ''ALL'' \<or> rule_method rule = toUpperCase pf m"

text \<open>
  The URL test: the pattern as a regular expression when it compiles, plain containment
  of the pattern in the URL when it does not.
\<close>

definition urlMatches :: "'j Platform \<Rightarrow> MockRule \<Rightarrow> string \<Rightarrow> bool" where
  "urlMatches pf rule u =
     (case RegExp pf (urlPattern rule) of
        Some t \<Rightarrow> t u
      | None \<Rightarrow> sublist (urlPattern rule) u)"

definition rulePasses :: "'j Platform \<Rightarrow> string \<Rightarrow> string \<Rightarrow> MockRule \<Rightarrow> bool" where
  "rulePasses pf u m rule \<longleftrightarrow>
     rule_enabled rule \<and> methodPasses pf rule m \<and> urlMatches pf rule u"

text \<open>
  Equality of two strings up to the case of their letters: they are the same once both
  are in upper case.
\<close>

definition caseInsensitiveEq :: "'j Platform \<Rightarrow> string \<Rightarrow> string \<Rightarrow> bool" where
  "caseInsensitiveEq pf a b \<longleftrightarrow> toUpperCase pf a = toUpperCase pf b"

section \<open>Request log\<close>

text \<open>
  \<open>addRequestLog\<close>. The entry's \<open>id\<close> and \<open>timestamp\<close> come from the clock and the random
  number generator; they are the arguments \<open>lid\<close> and \<open>now\<close>. The global \<open>requestLogs\<close> is
  passed in and the updated log is returned.
\<close>

definition addRequestLog ::
  "ScriptConfig \<Rightarrow> string \<Rightarrow> int \<Rightarrow> RequestLog list \<Rightarrow> string \<Rightarrow> string \<Rightarrow> bool \<Rightarrow> string option
     \<Rightarrow> RequestLog list" where
  "addRequestLog cfg lid now logs u m mt rid =
     (if \<not> logRequests cfg then logs
      else
        let log = \<lparr> log_id = lid, timestamp = now, url = u, log_method = m,
                     matched = mt, ruleId = rid \<rparr>;
            logs' = log # logs
        in if length logs' > 100 then take 100 logs' else logs')"

text \<open>
  One call of \<open>addRequestLog\<close>: the configuration in force at the call (the settings panel
  may switch \<open>logRequests\<close> between calls), the clock values and the arguments.
\<close>

record RecordCall =
  rc_config :: ScriptConfig
  rc_id :: string
  rc_now :: int
  rc_url :: string
  rc_method :: string
  rc_matched :: bool
  rc_ruleId :: "string option"

definition record_call :: "RequestLog list \<Rightarrow> RecordCall \<Rightarrow> RequestLog list" where
  "record_call logs c =
     addRequestLog (rc_config c) (rc_id c) (rc_now c) logs (rc_url c) (rc_method c)
       (rc_matched c) (rc_ruleId c)"

text \<open>A sequence of calls, the earliest first, from a given log.\<close>

fun record_calls :: "RequestLog list \<Rightarrow> RecordCall list \<Rightarrow> RequestLog list" where
  "record_calls logs [] = logs"
| "record_calls logs (c # cs) = record_calls (record_call logs c) cs"

text \<open>The entry that a call describes.\<close>

definition entry_of :: "RecordCall \<Rightarrow> RequestLog" where
  "entry_of c =
     \<lparr> log_id = rc_id c, timestamp = rc_now c, url = rc_url c, log_method = rc_method c,
       matched = rc_matched c, ruleId = rc_ruleId c \<rparr>"

section \<open>Fetch interceptor\<close>

text \<open>The errors that the script meets: those of \<open>JSON.parse\<close> and of \<open>new Response\<close>.\<close>

datatype JsError = SyntaxError | RangeError | TypeError

text \<open>
  A \<open>Response\<close> object: body text, status (\<open>resp_status\<close>), status text (\<open>resp_statusText\<close>)
  and headers.
\<close>

record Response =
  body :: string
  resp_status :: int
  resp_statusText :: string
  headers :: "(string \<times> string) list"

text \<open>
  \<open>new Response(body, {status, statusText, headers})\<close> for a string body, as the platform's
  constructor treats the script's call: a status outside 200 to 599 is refused with a
  \<open>RangeError\<close>; then, the body being a string and so not null, a status that allows no body
  (204, 205, 304) is refused with a \<open>TypeError\<close>. The status text \<open>OK\<close> and the
  \<open>Content-Type\<close> header that the script passes are well-formed, and the header of the
  response is the one passed.
\<close>

definition newResponse ::
  "string \<Rightarrow> int \<Rightarrow> string \<Rightarrow> (string \<times> string) list \<Rightarrow> JsError + Response" where
  "newResponse b st stt hs =
     (if st < 200 \<or> 599 < st then Inl RangeError
      else if st = 204 \<or> st = 205 \<or> st = 304 then Inl TypeError
      else Inr \<lparr> body = b, resp_status = st, resp_statusText = stt, headers = hs \<rparr>)"

text \<open>The status codes with which the constructor builds a response that has a body.\<close>

definition acceptsStatus :: "int \<Rightarrow> bool" where
  "acceptsStatus st \<longleftrightarrow> 200 \<le> st \<and> st \<le> 599 \<and> st \<noteq> 204 \<and> st \<noteq> 205 \<and> st \<noteq> 304"

text \<open>
  The first argument of \<open>fetch\<close>: a string, a \<open>URL\<close> (its \<open>href\<close>) or a \<open>Request\<close> (its \<open>url\<close>
  and its \<open>method\<close>).
\<close>

datatype FetchInput = InputString string | InputURL string | InputRequest string string

text \<open>The second argument of \<open>fetch\<close>, of which the script reads \<open>method\<close> only.\<close>

record RequestInit =
  init_method :: "string option"

text \<open>
  How the promise of the \<open>async\<close> wrapper settles: fulfilled with a response, rejected with
  the error thrown in its body, or resolved with what the original \<open>fetch\<close> returned, whose
  fate it then follows.
\<close>

datatype ('r, 'p) Settled = Resolved 'r | Rejected JsError | Adopted 'p

record 'p FetchResult =
  fr_logs :: "RequestLog list"
  fr_delay :: "int option"
  fr_outcome :: "(Response, 'p) Settled"

text \<open>
  \<open>typeof input === 'string' ? input : input instanceof URL ? input.href : input.url\<close>.
\<close>

definition fetchUrl :: "FetchInput \<Rightarrow> string" where
  "fetchUrl input =
     (case input of InputString s \<Rightarrow> s | InputURL href \<Rightarrow> href | InputRequest u m \<Rightarrow> u)"

text \<open>
  \<open>init?.method || 'GET'\<close>: a missing \<open>init\<close>, a missing method and the empty string give
  \<open>GET\<close>. The method of a \<open>Request\<close> passed as first argument is not read.
\<close>

definition fetchMethod :: "'a RequestInit_scheme option \<Rightarrow> string" where
  "fetchMethod init =
     (case init of
        None \<Rightarrow> ''GET''
      | Some i \<Rightarrow> (case init_method i of
                     None \<Rightarrow> ''GET''
                   | Some m \<Rightarrow> if m = [] then ''GET'' else m))"

definition contentType :: "MockRule \<Rightarrow> string" where
  "contentType rule = (if responseType rule = Json then ''application/json'' else ''text/plain'')"

text \<open>
  The construction of the mock response in the wrapper: \<open>JSON.parse\<close> is called with no
  handler around it, and so is the constructor; an error of either leaves the function.
\<close>

definition mockResponse :: "'j Platform \<Rightarrow> MockRule \<Rightarrow> JsError + Response" where
  "mockResponse pf rule =
     (if responseType rule = Json then
        (case JSON_parse pf (responseData rule) of
           None \<Rightarrow> Inl SyntaxError
         | Some responseData' \<Rightarrow>
             newResponse (JSON_stringify pf responseData') (statusCode rule) ''OK''
               [(''Content-Type'', contentType rule)])
      else
        newResponse (responseData rule) (statusCode rule) ''OK''
          [(''Content-Type'', contentType rule)])"

text \<open>
  The wrapper installed as \<open>window.fetch\<close>. \<open>fr_delay\<close> is the timer awaited before the
  response is built, if any; the timer always fires, so the function goes on after it.
\<close>

definition interceptFetch ::
  "'j Platform \<Rightarrow> (FetchInput \<Rightarrow> 'a RequestInit_scheme option \<Rightarrow> 'p)
     \<Rightarrow> ScriptConfig \<Rightarrow> string \<Rightarrow> int \<Rightarrow> RequestLog list
     \<Rightarrow> FetchInput \<Rightarrow> 'a RequestInit_scheme option \<Rightarrow> 'p FetchResult" where
  "interceptFetch pf originalFetch cfg lid now logs input init =
     (let u = fetchUrl input; m = fetchMethod init
      in case matchRule pf cfg u m of
           Some rule \<Rightarrow>
             \<lparr> fr_logs = addRequestLog cfg lid now logs u m True (Some (rule_id rule)),
               fr_delay = (if delay rule > 0 then Some (delay rule) else None),
               fr_outcome = (case mockResponse pf rule of
                               Inl e \<Rightarrow> Rejected e
                             | Inr r \<Rightarrow> Resolved r) \<rparr>
         | None \<Rightarrow>
             \<lparr> fr_logs = addRequestLog cfg lid now logs u m False None,
               fr_delay = None,
               fr_outcome = Adopted (originalFetch input init) \<rparr>)"

section \<open>XMLHttpRequest interceptor\<close>

text \<open>The value installed as the \<open>response\<close> property: a string or a parsed JSON value.\<close>

datatype 'j ResponseValue = NoResponse | RawString string | Parsed 'j

text \<open>
  The request object, as far as the script reads and writes it: the three properties that
  the script adds (\<open>_mockUrl\<close>, \<open>_mockMethod\<close>, \<open>_mockIntercepted\<close>, without the
  underscore here; \<open>None\<close> is \<open>undefined\<close>), the properties that it redefines, and the two
  header accessors, which are \<open>None\<close> as long as the script has not replaced them.
\<close>

record 'j XHR =
  mockUrl :: "string option"
  mockMethod :: "string option"
  mockIntercepted :: bool
  readyState :: nat
  status :: int
  statusText :: string
  responseText :: string
  response :: "'j ResponseValue"
  xhr_responseType :: string
  getAllResponseHeaders :: "string option"
  getResponseHeader :: "(string \<Rightarrow> string option) option"

text \<open>
  What the timer callback does that page code can observe, in the order in which it
  happens: an event dispatched on the object (with the object as the listeners see it at
  that moment) and a line written with \<open>console.error\<close>.
\<close>

datatype 'j Effect = Dispatch string "'j XHR" | ConsoleError JsError

record 'j Run =
  self :: "'j XHR"
  trace :: "'j Effect list"

definition setProp :: "('j XHR \<Rightarrow> 'j XHR) \<Rightarrow> 'j Run \<Rightarrow> 'j Run" where
  "setProp f r = r\<lparr>self := f (self r)\<rparr>"

definition dispatchEvent :: "string \<Rightarrow> 'j Run \<Rightarrow> 'j Run" where
  "dispatchEvent e r = r\<lparr>trace := trace r @ [Dispatch e (self r)]\<rparr>"

definition consoleError :: "JsError \<Rightarrow> 'j Run \<Rightarrow> 'j Run" where
  "consoleError e r = r\<lparr>trace := trace r @ [ConsoleError e]\<rparr>"

text \<open>The events dispatched in a trace, with the object seen at each.\<close>

fun dispatched :: "'j Effect list \<Rightarrow> (string \<times> 'j XHR) list" where
  "dispatched [] = []"
| "dispatched (Dispatch e x # t) = (e, x) # dispatched t"
| "dispatched (ConsoleError e # t) = dispatched t"

text \<open>\<open>getAllResponseHeaders\<close> ends its single line with carriage return and line feed.\<close>

definition crlf :: string where
  "crlf = [CHR 0x0D, CHR 0x0A]"

text \<open>The callback handed to \<open>setTimeout\<close> on the matched path, run on the request object.\<close>

definition onTimeout :: "'j Platform \<Rightarrow> MockRule \<Rightarrow> 'j XHR \<Rightarrow> 'j Run" where
  "onTimeout pf rule x =
     (let r0 = \<lparr> self = x, trace = [] \<rparr>;
          r1 = dispatchEvent ''readystatechange'' (setProp (\<lambda>s. s\<lparr>readyState := 1\<rparr>) r0);
          r2 = dispatchEvent ''readystatechange'' (setProp (\<lambda>s. s\<lparr>readyState := 2\<rparr>) r1);
          r3 = dispatchEvent ''readystatechange'' (setProp (\<lambda>s. s\<lparr>readyState := 3\<rparr>) r2);
          r4 = setProp (\<lambda>s. s\<lparr>readyState := 4, status := statusCode rule, statusText := ''OK'',
                                responseText := responseData rule\<rparr>) r3;
          r5 = (if responseType rule = Json then
                  (case JSON_parse pf (responseData rule) of
                     Some v \<Rightarrow> setProp (\<lambda>s. s\<lparr>response := Parsed v, xhr_responseType := ''json''\<rparr>) r4
                   | None \<Rightarrow> setProp (\<lambda>s. s\<lparr>response := RawString (responseData rule)\<rparr>)
                               (consoleError SyntaxError r4))
                else setProp (\<lambda>s. s\<lparr>response := RawString (responseData rule)\<rparr>) r4);
          r6 = setProp (\<lambda>s. s\<lparr>
                  getAllResponseHeaders := Some (''Content-Type: '' @ contentType rule @ crlf),
                  getResponseHeader := Some (\<lambda>name'.
                    if toLowerCase pf name' = ''content-type'' then Some (contentType rule)
                    else None)\<rparr>) r5;
          r7 = dispatchEvent ''readystatechange'' r6;
          r8 = dispatchEvent ''load'' r7
      in dispatchEvent ''loadend'' r8)"

text \<open>
  What \<open>send\<close> does besides updating the log and the object: it either starts one timer
  (its delay and its callback) and returns, or calls the original \<open>send\<close> with the body.
\<close>

datatype ('j, 'b) SendAction = SetTimeout int "'j XHR \<Rightarrow> 'j Run" | OriginalSend 'b

record ('j, 'b) SendResult =
  sr_logs :: "RequestLog list"
  sr_self :: "'j XHR"
  sr_action :: "('j, 'b) SendAction"

text \<open>The second argument of \<open>open\<close>: a string or a \<open>URL\<close> (its \<open>href\<close>).\<close>

datatype XhrUrl = UrlString string | UrlObject string

text \<open>
  The replacement of \<open>XMLHttpRequest.prototype.open\<close>: it notes URL and method on the object
  and calls the original \<open>open\<close> with the same arguments (\<open>rest\<close> stands for \<open>async\<close>,
  \<open>username\<close> and \<open>password\<close>).
\<close>

definition xhrOpen ::
  "('j XHR \<Rightarrow> string \<Rightarrow> XhrUrl \<Rightarrow> 'c \<Rightarrow> 'o) \<Rightarrow> 'j XHR \<Rightarrow> string \<Rightarrow> XhrUrl \<Rightarrow> 'c \<Rightarrow> 'o" where
  "xhrOpen originalXHROpen x m u rest =
     (let urlStr = (case u of UrlString s \<Rightarrow> s | UrlObject href \<Rightarrow> href)
      in originalXHROpen (x\<lparr>mockUrl := Some urlStr, mockMethod := Some m\<rparr>) m u rest)"

text \<open>
  The replacement of \<open>XMLHttpRequest.prototype.send\<close>. The guard \<open>if (url && method)\<close> holds
  when both properties are defined and not the empty string; where it fails, and where no
  rule matches, control reaches the call of the original \<open>send\<close> at the end.
\<close>

definition xhrSend ::
  "'j Platform \<Rightarrow> ScriptConfig \<Rightarrow> string \<Rightarrow> int \<Rightarrow> RequestLog list
     \<Rightarrow> 'j XHR \<Rightarrow> 'b \<Rightarrow> ('j, 'b) SendResult" where
  "xhrSend pf cfg lid now logs x b =
     (let original = \<lparr> sr_logs = logs, sr_self = x, sr_action = OriginalSend b \<rparr>
      in case mockUrl x of
           None \<Rightarrow> original
         | Some u \<Rightarrow>
            (case mockMethod x of
               None \<Rightarrow> original
             | Some m \<Rightarrow>
                 if u \<noteq> [] \<and> m \<noteq> [] then
                   (case matchRule pf cfg u m of
                      Some rule \<Rightarrow>
                        \<lparr> sr_logs = addRequestLog cfg lid now logs u m True (Some (rule_id rule)),
                          sr_self = x\<lparr>mockIntercepted := True\<rparr>,
                          sr_action = SetTimeout (delay rule) (onTimeout pf rule) \<rparr>
                    | None \<Rightarrow>
                        original\<lparr>sr_logs := addRequestLog cfg lid now logs u m False None\<rparr>)
                 else original))"

section \<open>Sample data\<close>

text \<open>
  The rule of the specification's first scenario, and variants of it: a text rule with
  status 503, a rule whose JSON body is malformed, a rule whose JSON body has insignificant
  blanks, a rule whose method is stored in lower case, and a text rule with status 101.
\<close>

definition userRule :: MockRule where
  "userRule =
     \<lparr> rule_id = ''r1'', rule_enabled = True, name = ''user'', urlPattern = ''/api/user'',
       rule_method = ''GET'', responseType = Json, responseData = ''{\"id\":1}'',
       statusCode = 200, delay = 0 \<rparr>"

definition textRule :: MockRule where
  "textRule = userRule\<lparr>rule_id := ''r2'', rule_method := ''ALL'', responseType := Text,
     responseData := ''hello'', statusCode := 503, delay := 500\<rparr>"

definition badJsonRule :: MockRule where
  "badJsonRule = userRule\<lparr>rule_id := ''r3'', responseData := ''{bad json''\<rparr>"


definition lowerRule :: MockRule where
  "lowerRule = userRule\<lparr>rule_id := ''r5'', rule_method := ''get''\<rparr>"



definition demoConfig :: "MockRule list \<Rightarrow> ScriptConfig" where
  "demoConfig rs = \<lparr> enabled = True, rules = rs, showNotification = True, logRequests = True \<rparr>"

text \<open>
  A stand-in for the platform on the strings of the examples below, used on no other
  string.
  \<^item> Regular expressions: \<open>[\<close> does not compile, and a pattern made of letters, digits and
    \<open>/\<close> tests for itself as a substring.
  \<^item> Letter case: on strings of ASCII characters \<open>toUpperCase\<close> and \<open>toLowerCase\<close> map the
    letters \<open>a\<close> to \<open>z\<close> and \<open>A\<close> to \<open>Z\<close> onto each other and leave the rest.
  \<^item> JSON: a parsed value is represented by its canonical text, so that \<open>JSON.stringify\<close> is
    the identity; \<open>JSON.parse\<close> is given on the three bodies of the sample rules.
\<close>

definition sampleRegExp :: "string \<Rightarrow> (string \<Rightarrow> bool) option" where
  "sampleRegExp p = (if p = ''['' then None else Some (\<lambda>u. sublist p u))"

definition lowerLetters :: string where
  "lowerLetters = ''abcdefghijklmnopqrstuvwxyz''"

definition upperLetters :: string where
  "upperLetters = ''ABCDEFGHIJKLMNOPQRSTUVWXYZ''"

definition sampleToUpperCase :: "string \<Rightarrow> string" where
  "sampleToUpperCase s =
     map (\<lambda>c. case map_of (zip lowerLetters upperLetters) c of Some d \<Rightarrow> d | None \<Rightarrow> c) s"

definition sampleToLowerCase :: "string \<Rightarrow> string" where
  "sampleToLowerCase s =
     map (\<lambda>c. case map_of (zip upperLetters lowerLetters) c of Some d \<Rightarrow> d | None \<Rightarrow> c) s"

definition sampleParse :: "string \<Rightarrow> string option" where
  "sampleParse s =
     (if s = ''{\"id\":1}'' \<or> s = ''{ \"id\": 1 }'' then Some ''{\"id\":1}'' else None)"

definition sampleStringify :: "string \<Rightarrow> string" where
  "sampleStringify v = v"

definition samplePlatform :: "string Platform" where
  "samplePlatform =
     \<lparr> RegExp = sampleRegExp, toUpperCase = sampleToUpperCase, toLowerCase = sampleToLowerCase,
       JSON_parse = sampleParse, JSON_stringify = sampleStringify \<rparr>"

text \<open>A request object on which \<open>open\<close> has noted a URL and a method.\<close>

definition openedXHR :: "string \<Rightarrow> string \<Rightarrow> string XHR" where
  "openedXHR u m =
     \<lparr> mockUrl = Some u, mockMethod = Some m, mockIntercepted = False, readyState = 1,
       status = 0, statusText = [], responseText = [], response = NoResponse,
       xhr_responseType = [], getAllResponseHeaders = None, getResponseHeader = None \<rparr>"

text \<open>150 calls of \<open>addRequestLog\<close> with logging on, the \<open>i\<close>-th at time \<open>i\<close>.\<close>

definition sampleCall :: "nat \<Rightarrow> RecordCall" where
  "sampleCall i =
     \<lparr> rc_config = demoConfig [], rc_id = ''x'', rc_now = int i, rc_url = ''/api/user'',
       rc_method = ''GET'', rc_matched = False, rc_ruleId = None \<rparr>"

definition sampleCalls :: "RecordCall list" where
  "sampleCalls = map sampleCall [0..<150]"

section \<open>Properties of the matcher\<close>

lemma matchRules_find:
  "matchRules pf rs u m = find (rulePasses pf u m) rs"
  by (induction rs) (auto simp: rulePasses_def methodPasses_def urlMatches_def str_includes_def split: option.splits)

text \<open>
  C2. With the master switch off the matcher returns nothing. With it on, the matcher
  returns the first rule, in the stored order, that is enabled, passes the method test
  and passes the URL test (the regular expression when the pattern compiles, containment
  of the pattern in the URL otherwise), and nothing when no rule does.
\<close>

theorem matchRule_first_match:
  "matchRule pf cfg u m =
     (if enabled cfg then find (rulePasses pf u m) (rules cfg) else None)"
  by (simp add: matchRule_def matchRules_find)

text \<open>
  Five rules: a disabled one, one for another method, one whose pattern does not compile
  and is not contained in the URL, and two that pass; the first of these two is returned.
\<close>

theorem matchRule_first_match_witness:
  "enabled (demoConfig [userRule\<lparr>rule_enabled := False\<rparr>, textRule\<lparr>rule_method := ''POST''\<rparr>,
       userRule\<lparr>urlPattern := ''[''\<rparr>, userRule, textRule])
   \<and> matchRule samplePlatform
        (demoConfig [userRule\<lparr>rule_enabled := False\<rparr>, textRule\<lparr>rule_method := ''POST''\<rparr>,
           userRule\<lparr>urlPattern := ''[''\<rparr>, userRule, textRule])
        ''/api/user/info'' ''get'' = Some userRule
   \<and> matchRule samplePlatform ((demoConfig [userRule]) \<lparr>enabled := False\<rparr>)
        ''/api/user/info'' ''GET'' = None"
  using matchRule_first_match [of samplePlatform
      "demoConfig [userRule\<lparr>rule_enabled := False\<rparr>, textRule\<lparr>rule_method := ''POST''\<rparr>,
           userRule\<lparr>urlPattern := ''[''\<rparr>, userRule, textRule]" "''/api/user/info''" "''get''"]
    matchRule_first_match [of samplePlatform "(demoConfig [userRule]) \<lparr>enabled := False\<rparr>"
      "''/api/user/info''" "''GET''"]
  by code_simp

subsection \<open>The method test and the case of letters\<close>

text \<open>
  C6, as stated, fails for a rule whose method is stored in lower case: the rule's \<open>get\<close>
  equals the request's \<open>GET\<close> up to case, yet the matcher skips the rule, whatever the
  case of the request method; the same rule with \<open>GET\<close> stored is returned.
\<close>

theorem method_test_lower_case_rule_counterexample:
  "rule_method lowerRule \<noteq> ''ALL''
   \<and> caseInsensitiveEq samplePlatform (rule_method lowerRule) ''GET''
   \<and> matchRule samplePlatform (demoConfig [lowerRule]) ''/api/user'' ''GET'' = None
   \<and> matchRule samplePlatform (demoConfig [lowerRule]) ''/api/user'' ''get'' = None
   \<and> matchRule samplePlatform (demoConfig [userRule]) ''/api/user'' ''get'' = Some userRule"
  by code_simp

text \<open>
  C6, amended. The matcher puts the request method in upper case and compares the rule's
  method as it is stored. For an enabled rule whose method is not \<open>ALL\<close>: the loop skips the
  rule when its method differs from the upper-cased request method, and returns it when
  the two are equal and the URL test passes; so a configuration holding this rule alone,
  with a URL that passes, returns the rule exactly when its method is the upper-cased
  request method. Where the rule's method is stored in upper case, that is exactly when
  the rule's method and the request method are equal up to case.
\<close>

theorem matcher_upper_cases_request_method:
  assumes "rule_enabled rule" and "rule_method rule \<noteq> ''ALL''"
  shows "(rule_method rule \<noteq> toUpperCase pf m \<longrightarrow>
            matchRules pf (rule # rest) u m = matchRules pf rest u m)
    \<and> (rule_method rule = toUpperCase pf m \<and> urlMatches pf rule u \<longrightarrow>
            matchRules pf (rule # rest) u m = Some rule)
    \<and> (enabled cfg \<and> rules cfg = [rule] \<and> urlMatches pf rule u \<longrightarrow>
          (matchRule pf cfg u m = Some rule \<longleftrightarrow> rule_method rule = toUpperCase pf m))
    \<and> (enabled cfg \<and> rules cfg = [rule] \<and> urlMatches pf rule u
          \<and> toUpperCase pf (rule_method rule) = rule_method rule \<longrightarrow>
          (matchRule pf cfg u m = Some rule \<longleftrightarrow> caseInsensitiveEq pf (rule_method rule) m))"
proof -
  have skip: "matchRules pf (rule # rest) u m = matchRules pf rest u m"
    if "rule_method rule \<noteq> toUpperCase pf m" for rest
    using that assms by simp
  have take: "matchRules pf (rule # rest) u m = Some rule"
    if "rule_method rule = toUpperCase pf m" and "urlMatches pf rule u" for rest
    using that assms by (auto simp: urlMatches_def str_includes_def split: option.splits)
  have single: "matchRule pf cfg u m = Some rule \<longleftrightarrow> rule_method rule = toUpperCase pf m"
    if "enabled cfg" and "rules cfg = [rule]" and "urlMatches pf rule u"
  proof (cases "rule_method rule = toUpperCase pf m")
    case True
    with that take [of "[]"] show ?thesis
      by (simp add: matchRule_def)
  next
    case False
    with that skip [of "[]"] show ?thesis
      by (simp add: matchRule_def)
  qed
  have ci: "matchRule pf cfg u m = Some rule \<longleftrightarrow> caseInsensitiveEq pf (rule_method rule) m"
    if "enabled cfg" and "rules cfg = [rule]" and "urlMatches pf rule u"
      and up: "toUpperCase pf (rule_method rule) = rule_method rule"
  proof -
    have "caseInsensitiveEq pf (rule_method rule) m \<longleftrightarrow> rule_method rule = toUpperCase pf m"
      by (simp add: caseInsensitiveEq_def up)
    with single [OF that(1,2,3)] show ?thesis
      by simp
  qed
  from skip take single ci show ?thesis
    by blast
qed

text \<open>The \<open>GET\<close> rule of the first scenario, for the request methods \<open>gEt\<close> and \<open>POST\<close>.\<close>

theorem matcher_upper_cases_request_method_witness:
  "rule_enabled userRule \<and> rule_method userRule \<noteq> ''ALL''
   \<and> enabled (demoConfig [userRule]) \<and> rules (demoConfig [userRule]) = [userRule]
   \<and> urlMatches samplePlatform userRule ''/api/user/info''
   \<and> toUpperCase samplePlatform (rule_method userRule) = rule_method userRule
   \<and> caseInsensitiveEq samplePlatform (rule_method userRule) ''gEt''
   \<and> matchRule samplePlatform (demoConfig [userRule]) ''/api/user/info'' ''gEt'' = Some userRule
   \<and> \<not> caseInsensitiveEq samplePlatform (rule_method userRule) ''POST''
   \<and> matchRule samplePlatform (demoConfig [userRule]) ''/api/user/info'' ''POST'' \<noteq> Some userRule"
proof -
  have h1: "rule_enabled userRule" and h2: "rule_method userRule \<noteq> ''ALL''"
    by (simp_all add: userRule_def)
  have h3: "enabled (demoConfig [userRule]) \<and> rules (demoConfig [userRule]) = [userRule]"
    by (simp add: demoConfig_def)
  have h4: "urlMatches samplePlatform userRule ''/api/user/info''"
    by code_simp
  have h5: "toUpperCase samplePlatform (rule_method userRule) = rule_method userRule"
    by code_simp
  have h6: "caseInsensitiveEq samplePlatform (rule_method userRule) ''gEt''"
    by code_simp
  have h7: "\<not> caseInsensitiveEq samplePlatform (rule_method userRule) ''POST''"
    by code_simp
  show ?thesis
    using h1 h2 h3 h4 h5 h6 h7
      matcher_upper_cases_request_method [OF h1 h2, where pf = samplePlatform and m = "''gEt''"
        and cfg = "demoConfig [userRule]" and u = "''/api/user/info''"]
      matcher_upper_cases_request_method [OF h1 h2, where pf = samplePlatform and m = "''POST''"
        and cfg = "demoConfig [userRule]" and u = "''/api/user/info''"]
    by blast
qed

section \<open>Properties of the request log\<close>

lemma take_append_take: "take n (xs @ take n ys) = take n (xs @ ys)"
  by (simp add: min_def)

lemma record_call_eq:
  "length logs \<le> 100 \<Longrightarrow>
     record_call logs c =
       (if logRequests (rc_config c) then take 100 (entry_of c # logs) else logs)"
  by (simp add: record_call_def addRequestLog_def entry_of_def Let_def)

lemma record_call_length: "length logs \<le> 100 \<Longrightarrow> length (record_call logs c) \<le> 100"
  by (simp add: record_call_eq)

lemma record_calls_eq:
  "length logs \<le> 100 \<Longrightarrow>
     record_calls logs cs =
       take 100 (rev (map entry_of (filter (\<lambda>c. logRequests (rc_config c)) cs)) @ logs)"
proof (induction cs arbitrary: logs)
  case Nil
  then show ?case by simp
next
  case (Cons c cs)
  have len: "length (record_call logs c) \<le> 100"
    using Cons.prems by (rule record_call_length)
  show ?case
  proof (cases "logRequests (rc_config c)")
    case True
    have "record_calls logs (c # cs) =
            take 100 (rev (map entry_of (filter (\<lambda>c. logRequests (rc_config c)) cs))
                        @ take 100 (entry_of c # logs))"
      using Cons.IH [OF len] Cons.prems True by (simp add: record_call_eq)
    also have "\<dots> = take 100 (rev (map entry_of (filter (\<lambda>c. logRequests (rc_config c)) cs))
                        @ entry_of c # logs)"
      by (rule take_append_take)
    finally show ?thesis
      using True by simp
  next
    case False
    then show ?thesis
      using Cons.IH [OF len] Cons.prems by (simp add: record_call_eq)
  qed
qed

text \<open>
  C4. Starting from the empty log, after any sequence of calls of \<open>addRequestLog\<close> the log
  has at most 100 entries and holds the most recent 100 recorded entries, the newest
  first. After 150 calls with logging on, the entries of the first 50 calls are gone and
  those of the last 100 remain, the newest first.
\<close>

theorem request_log_bounded:
  "length (record_calls [] cs) \<le> 100
   \<and> record_calls [] cs =
       take 100 (rev (map entry_of (filter (\<lambda>c. logRequests (rc_config c)) cs)))
   \<and> (length cs = 150 \<and> (\<forall>c \<in> set cs. logRequests (rc_config c)) \<longrightarrow>
        record_calls [] cs = rev (map entry_of (drop 50 cs)))"
proof -
  have eq: "record_calls [] cs =
      take 100 (rev (map entry_of (filter (\<lambda>c. logRequests (rc_config c)) cs)))"
    using record_calls_eq [of "[]" cs] by simp
  have len: "length (record_calls [] cs) \<le> 100"
    by (simp add: eq)
  have last: "record_calls [] cs = rev (map entry_of (drop 50 cs))"
    if "length cs = 150" and "\<forall>c \<in> set cs. logRequests (rc_config c)"
  proof -
    from that(2) have "filter (\<lambda>c. logRequests (rc_config c)) cs = cs"
      by (simp add: filter_id_conv)
    with eq have "record_calls [] cs = take 100 (rev (map entry_of cs))"
      by simp
    also have "\<dots> = rev (drop (length (map entry_of cs) - 100) (map entry_of cs))"
      by (rule take_rev)
    also have "\<dots> = rev (map entry_of (drop 50 cs))"
      using that(1) by (simp add: drop_map)
    finally show ?thesis .
  qed
  from eq len last show ?thesis by blast
qed

text \<open>150 calls at times 0 to 149: the log holds the times 149 down to 50.\<close>

theorem request_log_bounded_witness:
  "length sampleCalls = 150
   \<and> list_all (\<lambda>c. logRequests (rc_config c)) sampleCalls
   \<and> record_calls [] sampleCalls = rev (map entry_of (drop 50 sampleCalls))
   \<and> map timestamp (record_calls [] sampleCalls) = rev (map int [50..<150])"
proof -
  have h1: "length sampleCalls = 150"
    by (simp add: sampleCalls_def)
  have h2: "\<forall>c \<in> set sampleCalls. logRequests (rc_config c)"
    by (simp add: sampleCalls_def sampleCall_def demoConfig_def)
  have h3: "record_calls [] sampleCalls = rev (map entry_of (drop 50 sampleCalls))"
    using request_log_bounded [of sampleCalls] h1 h2 by blast
  have "drop 50 sampleCalls = map sampleCall [50..<150]"
    by (simp add: sampleCalls_def drop_map)
  then have h4: "map timestamp (record_calls [] sampleCalls) = rev (map int [50..<150])"
    by (simp add: h3 rev_map entry_of_def sampleCall_def comp_def)
  from h1 h2 h3 h4 show ?thesis by (simp add: list_all_iff)
qed

section \<open>Properties of the interceptors\<close>

lemmas run_defs = onTimeout_def Let_def dispatchEvent_def setProp_def consoleError_def

subsection \<open>The fetch wrapper on a matched rule\<close>

lemma fetch_matched_outcome:
  "matchRule pf cfg (fetchUrl input) (fetchMethod init) = Some rule \<Longrightarrow>
     fr_outcome (interceptFetch pf originalFetch cfg lid now logs input init) =
       (case mockResponse pf rule of Inl e \<Rightarrow> Rejected e | Inr r \<Rightarrow> Resolved r)"
  by (simp add: interceptFetch_def Let_def)

lemma fetch_resolved_iff:
  "matchRule pf cfg (fetchUrl input) (fetchMethod init) = Some rule \<Longrightarrow>
     fr_outcome (interceptFetch pf originalFetch cfg lid now logs input init) = Resolved r
       \<longleftrightarrow> mockResponse pf rule = Inr r"
  by (simp add: fetch_matched_outcome split: sum.splits)

lemma newResponse_Inr:
  "newResponse b st stt hs = Inr r \<longleftrightarrow>
     acceptsStatus st \<and> r = \<lparr> body = b, resp_status = st, resp_statusText = stt, headers = hs \<rparr>"
  by (auto simp: newResponse_def acceptsStatus_def)

lemma mockResponse_malformed:
  "responseType rule = Json \<Longrightarrow> JSON_parse pf (responseData rule) = None \<Longrightarrow>
     mockResponse pf rule = Inl SyntaxError"
  by (simp add: mockResponse_def)

lemma mockResponse_Inr_fields:
  "mockResponse pf rule = Inr r \<Longrightarrow>
     resp_status r = statusCode rule \<and> resp_statusText r = ''OK''
     \<and> headers r = [(''Content-Type'', contentType rule)] \<and> acceptsStatus (statusCode rule)"
  by (auto simp: mockResponse_def newResponse_Inr split: if_splits option.splits)


lemma mockResponse_accepted:
  "acceptsStatus (statusCode rule) \<Longrightarrow>
     responseType rule = Text \<or> JSON_parse pf (responseData rule) \<noteq> None \<Longrightarrow>
     \<exists>r. mockResponse pf rule = Inr r"
  by (cases "responseType rule") (auto simp: mockResponse_def newResponse_Inr)


text \<open>
  C1. The claim is that the fetch wrapper resolves its promise for every matched rule,
  also when the rule's JSON body is malformed. The code does not: for the matched rule
  whose body is \<open>{bad json\<close>, \<open>JSON.parse\<close> throws inside the wrapper and the promise is
  rejected with the \<open>SyntaxError\<close>.
\<close>

theorem fetch_malformed_json_rejects:
  "matchRule samplePlatform (demoConfig [badJsonRule]) ''/api/user/info'' ''GET'' = Some badJsonRule
   \<and> JSON_parse samplePlatform (responseData badJsonRule) = None
   \<and> fr_outcome (interceptFetch samplePlatform (\<lambda>i n. (i, n))
        (demoConfig [badJsonRule]) ''id1'' 0 [] (InputString ''/api/user/info'') (None :: RequestInit option))
       = Rejected SyntaxError"
  by code_simp

text \<open>
  The fetch wrapper on a matched rule in general: it resolves, with the rule's status code,
  when the constructor accepts the status code and the rule is a text rule or its body
  parses; it rejects when the body of a JSON rule does not parse.
\<close>

lemma fetch_matched_resolves:
  assumes "matchRule pf cfg (fetchUrl input) (fetchMethod init) = Some rule"
    and "acceptsStatus (statusCode rule)"
    and "responseType rule = Text \<or> JSON_parse pf (responseData rule) \<noteq> None"
  shows "\<exists>r. fr_outcome (interceptFetch pf originalFetch cfg lid now logs input init) = Resolved r
             \<and> resp_status r = statusCode rule"
proof -
  from mockResponse_accepted [OF assms(2,3)] obtain r where r: "mockResponse pf rule = Inr r"
    by blast
  with assms(1) show ?thesis
    by (auto simp: fetch_resolved_iff dest: mockResponse_Inr_fields)
qed

lemma fetch_matched_rejects:
  assumes "matchRule pf cfg (fetchUrl input) (fetchMethod init) = Some rule"
    and "responseType rule = Json" and "JSON_parse pf (responseData rule) = None"
  shows "fr_outcome (interceptFetch pf originalFetch cfg lid now logs input init)
           = Rejected SyntaxError"
  using assms by (simp add: fetch_matched_outcome mockResponse_malformed)

subsection \<open>The timer callback of the XMLHttpRequest interceptor\<close>

lemma dispatched_onTimeout:
  "map fst (dispatched (trace (onTimeout pf rule x))) =
     [''readystatechange'', ''readystatechange'', ''readystatechange'', ''readystatechange'',
      ''load'', ''loadend'']"
  by (simp add: run_defs split: option.split)

lemma readyStates_onTimeout:
  "map (readyState \<circ> snd) (dispatched (trace (onTimeout pf rule x))) = [1, 2, 3, 4, 4, 4]"
  by (simp add: run_defs split: option.split)

lemma done_snapshot:
  "snd (dispatched (trace (onTimeout pf rule x)) ! 3) = self (onTimeout pf rule x)"
  by (simp add: run_defs split: option.split)

lemma self_onTimeout:
  "self (onTimeout pf rule x) =
     x\<lparr>readyState := 4, status := statusCode rule, statusText := ''OK'',
       responseText := responseData rule,
       response := (if responseType rule = Json
                    then (case JSON_parse pf (responseData rule) of
                            Some v \<Rightarrow> Parsed v
                          | None \<Rightarrow> RawString (responseData rule))
                    else RawString (responseData rule)),
       xhr_responseType := (if responseType rule = Json \<and> JSON_parse pf (responseData rule) \<noteq> None
                            then ''json'' else xhr_responseType x),
       getAllResponseHeaders := Some (''Content-Type: '' @ contentType rule @ crlf),
       getResponseHeader := Some (\<lambda>name'.
          if toLowerCase pf name' = ''content-type'' then Some (contentType rule) else None)\<rparr>"
  by (simp add: run_defs split: option.split)

lemma trace_onTimeout_malformed:
  "responseType rule = Json \<Longrightarrow> JSON_parse pf (responseData rule) = None \<Longrightarrow>
     ConsoleError SyntaxError \<in> set (trace (onTimeout pf rule x))"
  by (simp add: run_defs)

lemma xhrSend_matched:
  assumes "mockUrl x = Some u" and "mockMethod x = Some m" and "u \<noteq> []" and "m \<noteq> []"
    and "matchRule pf cfg u m = Some rule"
  shows "xhrSend pf cfg lid now logs x b =
     \<lparr> sr_logs = addRequestLog cfg lid now logs u m True (Some (rule_id rule)),
       sr_self = x\<lparr>mockIntercepted := True\<rparr>,
       sr_action = SetTimeout (delay rule) (onTimeout pf rule) \<rparr>"
  using assms by (simp add: xhrSend_def Let_def)

text \<open>
  C3. On the matched path \<open>send\<close> does not call the original \<open>send\<close>; it starts one timer,
  with the rule's delay. The timer's callback dispatches \<open>readystatechange\<close> four times, with
  \<open>readyState\<close> 1, 2, 3 and 4, then \<open>load\<close> and \<open>loadend\<close>, in this order; at the fourth
  \<open>readystatechange\<close> the status, the status text and the response body are installed.
\<close>

theorem xhr_matched_lifecycle:
  assumes "mockUrl x = Some u" and "mockMethod x = Some m" and "u \<noteq> []" and "m \<noteq> []"
    and "matchRule pf cfg u m = Some rule"
  shows "sr_action (xhrSend pf cfg lid now logs x b) =
           SetTimeout (delay rule) (onTimeout pf rule)
    \<and> (\<forall>b'. sr_action (xhrSend pf cfg lid now logs x b) \<noteq> OriginalSend b')
    \<and> map fst (dispatched (trace (onTimeout pf rule y))) =
         [''readystatechange'', ''readystatechange'', ''readystatechange'',
          ''readystatechange'', ''load'', ''loadend'']
    \<and> map (readyState \<circ> snd) (dispatched (trace (onTimeout pf rule y))) = [1, 2, 3, 4, 4, 4]
    \<and> status (snd (dispatched (trace (onTimeout pf rule y)) ! 3)) = statusCode rule
    \<and> statusText (snd (dispatched (trace (onTimeout pf rule y)) ! 3)) = ''OK''
    \<and> responseText (snd (dispatched (trace (onTimeout pf rule y)) ! 3)) = responseData rule
    \<and> response (snd (dispatched (trace (onTimeout pf rule y)) ! 3)) =
         (if responseType rule = Json
          then (case JSON_parse pf (responseData rule) of
                  Some v \<Rightarrow> Parsed v
                | None \<Rightarrow> RawString (responseData rule))
          else RawString (responseData rule))"
proof -
  have a: "sr_action (xhrSend pf cfg lid now logs x b) =
      SetTimeout (delay rule) (onTimeout pf rule)"
    by (simp add: xhrSend_matched [OF assms])
  then have b: "\<forall>b'. sr_action (xhrSend pf cfg lid now logs x b) \<noteq> OriginalSend b'"
    by simp
  show ?thesis
    using a b dispatched_onTimeout [of pf rule y] readyStates_onTimeout [of pf rule y]
    by (simp add: done_snapshot self_onTimeout)
qed

theorem xhr_matched_lifecycle_witness:
  "mockUrl (openedXHR ''/api/user/info'' ''GET'') = Some ''/api/user/info''
   \<and> mockMethod (openedXHR ''/api/user/info'' ''GET'') = Some ''GET''
   \<and> matchRule samplePlatform (demoConfig [textRule]) ''/api/user/info'' ''GET'' = Some textRule
   \<and> sr_action (xhrSend samplePlatform (demoConfig [textRule]) ''id1'' 0 []
        (openedXHR ''/api/user/info'' ''GET'') ()) = SetTimeout 500 (onTimeout samplePlatform textRule)
   \<and> map (\<lambda>(e, s). (e, readyState s, status s))
        (dispatched (trace (onTimeout samplePlatform textRule (openedXHR ''/api/user/info'' ''GET'')))) =
        [(''readystatechange'', 1, 0), (''readystatechange'', 2, 0), (''readystatechange'', 3, 0),
         (''readystatechange'', 4, 503), (''load'', 4, 503), (''loadend'', 4, 503)]"
proof -
  have h1: "mockUrl (openedXHR ''/api/user/info'' ''GET'') = Some ''/api/user/info''"
    by (simp add: openedXHR_def)
  have h2: "mockMethod (openedXHR ''/api/user/info'' ''GET'') = Some ''GET''"
    by (simp add: openedXHR_def)
  have h3: "''/api/user/info'' \<noteq> []" and h4: "''GET'' \<noteq> []"
    by simp_all
  have h5: "matchRule samplePlatform (demoConfig [textRule]) ''/api/user/info'' ''GET'' = Some textRule"
    by code_simp
  have d: "delay textRule = 500"
    by (simp add: textRule_def userRule_def)
  have t: "map (\<lambda>(e, s). (e, readyState s, status s))
        (dispatched (trace (onTimeout samplePlatform textRule (openedXHR ''/api/user/info'' ''GET'')))) =
        [(''readystatechange'', 1, 0), (''readystatechange'', 2, 0), (''readystatechange'', 3, 0),
         (''readystatechange'', 4, 503), (''load'', 4, 503), (''loadend'', 4, 503)]"
    by (simp add: run_defs openedXHR_def textRule_def userRule_def)
  show ?thesis
    using h1 h2 h5 t d
      xhr_matched_lifecycle [OF h1 h2 h3 h4 h5, where lid = "''id1''" and now = 0 and logs = "[]"
        and b = "()" and y = "openedXHR ''/api/user/info'' ''GET''"]
    by simp
qed

text \<open>
  C7. On the matched XMLHttpRequest path, when the rule's type is JSON and its body does
  not parse: \<open>send\<close> starts the timer as for any matched rule, and its callback writes the
  error with \<open>console.error\<close>, installs the raw body string as \<open>response\<close> (in place at the
  fourth \<open>readystatechange\<close>), and dispatches all six events as usual.
\<close>

theorem xhr_malformed_json_degrades:
  assumes "mockUrl x = Some u" and "mockMethod x = Some m" and "u \<noteq> []" and "m \<noteq> []"
    and "matchRule pf cfg u m = Some rule"
    and "responseType rule = Json" and "JSON_parse pf (responseData rule) = None"
  shows "sr_action (xhrSend pf cfg lid now logs x b) =
           SetTimeout (delay rule) (onTimeout pf rule)
    \<and> ConsoleError SyntaxError \<in> set (trace (onTimeout pf rule y))
    \<and> response (self (onTimeout pf rule y)) = RawString (responseData rule)
    \<and> response (snd (dispatched (trace (onTimeout pf rule y)) ! 3)) =
         RawString (responseData rule)
    \<and> map fst (dispatched (trace (onTimeout pf rule y))) =
         [''readystatechange'', ''readystatechange'', ''readystatechange'',
          ''readystatechange'', ''load'', ''loadend'']
    \<and> map (readyState \<circ> snd) (dispatched (trace (onTimeout pf rule y))) = [1, 2, 3, 4, 4, 4]"
proof -
  have a: "sr_action (xhrSend pf cfg lid now logs x b) =
      SetTimeout (delay rule) (onTimeout pf rule)"
    by (simp add: xhrSend_matched [OF assms(1-5)])
  show ?thesis
    using a assms(6,7) trace_onTimeout_malformed [where pf = pf and rule = rule and x = y]
      dispatched_onTimeout [of pf rule y] readyStates_onTimeout [of pf rule y]
    by (simp add: done_snapshot self_onTimeout)
qed

theorem xhr_malformed_json_degrades_witness:
  "matchRule samplePlatform (demoConfig [badJsonRule]) ''/api/user'' ''GET'' = Some badJsonRule
   \<and> responseType badJsonRule = Json
   \<and> JSON_parse samplePlatform (responseData badJsonRule) = None
   \<and> sr_action (xhrSend samplePlatform (demoConfig [badJsonRule]) ''id1'' 0 []
        (openedXHR ''/api/user'' ''GET'') ()) = SetTimeout 0 (onTimeout samplePlatform badJsonRule)
   \<and> ConsoleError SyntaxError
        \<in> set (trace (onTimeout samplePlatform badJsonRule (openedXHR ''/api/user'' ''GET'')))
   \<and> response (self (onTimeout samplePlatform badJsonRule (openedXHR ''/api/user'' ''GET''))) =
        RawString ''{bad json''
   \<and> map fst (dispatched (trace (onTimeout samplePlatform badJsonRule (openedXHR ''/api/user'' ''GET'')))) =
         [''readystatechange'', ''readystatechange'', ''readystatechange'',
          ''readystatechange'', ''load'', ''loadend'']"
proof -
  have g1: "mockUrl (openedXHR ''/api/user'' ''GET'') = Some ''/api/user''"
    and g2: "mockMethod (openedXHR ''/api/user'' ''GET'') = Some ''GET''"
    by (simp_all add: openedXHR_def)
  have g3: "''/api/user'' \<noteq> []" and g4: "''GET'' \<noteq> []"
    by simp_all
  have g5: "matchRule samplePlatform (demoConfig [badJsonRule]) ''/api/user'' ''GET'' = Some badJsonRule"
    by code_simp
  have h1: "responseType badJsonRule = Json"
    by (simp add: badJsonRule_def userRule_def)
  have h2: "JSON_parse samplePlatform (responseData badJsonRule) = None"
    by (simp add: badJsonRule_def userRule_def samplePlatform_def sampleParse_def)
  have h3: "responseData badJsonRule = ''{bad json''" and h4: "delay badJsonRule = 0"
    by (simp_all add: badJsonRule_def userRule_def)
  show ?thesis
    using g5 h1 h2 h3 h4
      xhr_malformed_json_degrades [OF g1 g2 g3 g4 g5 h1 h2, where lid = "''id1''" and now = 0
        and logs = "[]" and b = "()" and y = "openedXHR ''/api/user'' ''GET''"]
    by simp
qed

subsection \<open>Headers, status and status text of a synthesized response\<close>




text \<open>
  C9. The status text of a synthesized response is \<open>OK\<close> whatever the rule's status code.
  Every response that the fetch wrapper resolves with for a matched rule has the status
  text \<open>OK\<close>, and the wrapper resolves with one, of the rule's status code, whenever the
  constructor accepts that code and the rule is a text rule or its body parses. On the
  matched XMLHttpRequest path the callback that \<open>send\<close> starts installs the status text
  \<open>OK\<close>, in place at the fourth \<open>readystatechange\<close>.
\<close>

theorem statusText_always_OK:
  "(matchRule pf cfg (fetchUrl input) (fetchMethod init) = Some rule \<longrightarrow>
      (\<forall>r. fr_outcome (interceptFetch pf originalFetch cfg lid now logs input init) = Resolved r \<longrightarrow>
         resp_statusText r = ''OK'')
      \<and> (acceptsStatus (statusCode rule)
           \<and> (responseType rule = Text \<or> JSON_parse pf (responseData rule) \<noteq> None) \<longrightarrow>
         (\<exists>r. fr_outcome (interceptFetch pf originalFetch cfg lid now logs input init) = Resolved r
            \<and> resp_status r = statusCode rule \<and> resp_statusText r = ''OK'')))
   \<and> (mockUrl x = Some u \<and> mockMethod x = Some m \<and> u \<noteq> [] \<and> m \<noteq> []
        \<and> matchRule pf cfg u m = Some rule \<longrightarrow>
      sr_action (xhrSend pf cfg lid now logs x b) = SetTimeout (delay rule) (onTimeout pf rule)
      \<and> status (self (onTimeout pf rule y)) = statusCode rule
      \<and> statusText (self (onTimeout pf rule y)) = ''OK''
      \<and> statusText (snd (dispatched (trace (onTimeout pf rule y)) ! 3)) = ''OK'')"
proof -
  have fetch_all: "resp_statusText r = ''OK'' \<and> resp_status r = statusCode rule"
    if "matchRule pf cfg (fetchUrl input) (fetchMethod init) = Some rule"
      and "fr_outcome (interceptFetch pf originalFetch cfg lid now logs input init) = Resolved r"
    for r
    using that by (simp add: fetch_resolved_iff mockResponse_Inr_fields)
  have fetch_ex: "\<exists>r. fr_outcome (interceptFetch pf originalFetch cfg lid now logs input init) = Resolved r
        \<and> resp_status r = statusCode rule \<and> resp_statusText r = ''OK''"
    if m: "matchRule pf cfg (fetchUrl input) (fetchMethod init) = Some rule"
      and a: "acceptsStatus (statusCode rule)"
      and p: "responseType rule = Text \<or> JSON_parse pf (responseData rule) \<noteq> None"
  proof -
    from mockResponse_accepted [OF a p] obtain r where "mockResponse pf rule = Inr r"
      by blast
    with m have "fr_outcome (interceptFetch pf originalFetch cfg lid now logs input init) = Resolved r"
      by (simp add: fetch_resolved_iff)
    with fetch_all [OF m] show ?thesis
      by blast
  qed
  have xhr: "sr_action (xhrSend pf cfg lid now logs x b) = SetTimeout (delay rule) (onTimeout pf rule)"
    if "mockUrl x = Some u" and "mockMethod x = Some m" and "u \<noteq> []" and "m \<noteq> []"
      and "matchRule pf cfg u m = Some rule"
    by (simp add: xhrSend_matched [OF that])
  have cb: "status (self (onTimeout pf rule y)) = statusCode rule
      \<and> statusText (self (onTimeout pf rule y)) = ''OK''
      \<and> statusText (snd (dispatched (trace (onTimeout pf rule y)) ! 3)) = ''OK''"
    by (simp add: done_snapshot self_onTimeout)
  from fetch_all fetch_ex xhr cb show ?thesis
    by blast
qed

text \<open>The text rule with status 503, on both paths.\<close>

theorem statusText_always_OK_witness:
  "matchRule samplePlatform (demoConfig [textRule]) ''/api/user'' ''GET'' = Some textRule
   \<and> statusCode textRule = 503 \<and> acceptsStatus (statusCode textRule)
   \<and> responseType textRule = Text
   \<and> (\<exists>r. fr_outcome (interceptFetch samplePlatform (\<lambda>i n. (i, n)) (demoConfig [textRule])
              ''id1'' 0 [] (InputString ''/api/user'') (None :: RequestInit option)) = Resolved r
          \<and> resp_status r = 503 \<and> resp_statusText r = ''OK'')
   \<and> sr_action (xhrSend samplePlatform (demoConfig [textRule]) ''id1'' 0 []
        (openedXHR ''/api/user'' ''GET'') ()) = SetTimeout 500 (onTimeout samplePlatform textRule)
   \<and> status (self (onTimeout samplePlatform textRule (openedXHR ''/api/user'' ''GET''))) = 503
   \<and> statusText (self (onTimeout samplePlatform textRule (openedXHR ''/api/user'' ''GET''))) = ''OK''"
proof -
  have m: "matchRule samplePlatform (demoConfig [textRule]) ''/api/user'' ''GET'' = Some textRule"
    by code_simp
  have mf: "matchRule samplePlatform (demoConfig [textRule]) (fetchUrl (InputString ''/api/user''))
      (fetchMethod (None :: RequestInit option)) = Some textRule"
    by code_simp
  have a: "acceptsStatus (statusCode textRule)"
    by code_simp
  have t: "responseType textRule = Text" and c: "statusCode textRule = 503"
    and d: "delay textRule = 500"
    by (simp_all add: textRule_def userRule_def)
  have g: "mockUrl (openedXHR ''/api/user'' ''GET'') = Some ''/api/user''
      \<and> mockMethod (openedXHR ''/api/user'' ''GET'') = Some ''GET''
      \<and> ''/api/user'' \<noteq> [] \<and> ''GET'' \<noteq> []"
    by (simp add: openedXHR_def)
  show ?thesis
    using m mf a t c d g
      statusText_always_OK
        [where pf = samplePlatform and cfg = "demoConfig [textRule]" and rule = textRule
          and input = "InputString ''/api/user''" and init = "None :: RequestInit option"
          and originalFetch = "\<lambda>i n. (i, n)" and lid = "''id1''" and now = 0 and logs = "[]"
          and x = "openedXHR ''/api/user'' ''GET''" and u = "''/api/user''" and m = "''GET''"
          and b = "()" and y = "openedXHR ''/api/user'' ''GET''"]
    by simp
qed

subsection \<open>The body of a JSON response of the fetch wrapper\<close>




subsection \<open>Requests that match no rule\<close>

text \<open>
  What the interceptors do when the matcher, called with the URL and the method that they
  read, finds no rule. The fetch wrapper calls \<open>addRequestLog\<close> with \<open>matched = false\<close> and
  returns what the original \<open>fetch\<close> returns for the original arguments. The replaced \<open>send\<close>
  does the same with the original \<open>send\<close> when the guard \<open>if (url && method)\<close> holds.
  \<open>addRequestLog\<close> puts the entry at the head of the log when \<open>logRequests\<close> is on.
\<close>

lemma pass_through_matcher_none:
  "(matchRule pf cfg (fetchUrl input) (fetchMethod init) = None \<longrightarrow>
      interceptFetch pf originalFetch cfg lid now logs input init =
        \<lparr> fr_logs = addRequestLog cfg lid now logs (fetchUrl input) (fetchMethod init) False None,
          fr_delay = None,
          fr_outcome = Adopted (originalFetch input init) \<rparr>)
   \<and> (mockUrl x = Some u \<and> mockMethod x = Some m \<and> u \<noteq> [] \<and> m \<noteq> []
        \<and> matchRule pf cfg u m = None \<longrightarrow>
      xhrSend pf cfg lid now logs x b =
        \<lparr> sr_logs = addRequestLog cfg lid now logs u m False None,
          sr_self = x,
          sr_action = OriginalSend b \<rparr>)
   \<and> (logRequests cfg \<longrightarrow>
        addRequestLog cfg lid now logs u' m' False None =
          take 100 (\<lparr> log_id = lid, timestamp = now, url = u', log_method = m',
                       matched = False, ruleId = None \<rparr> # logs))"
  by (auto simp: interceptFetch_def xhrSend_def addRequestLog_def Let_def split: option.splits)

text \<open>
  C5. The claim is that every request that matches no rule is logged with
  \<open>matched = false\<close> and handed to the original entry point. The code does not do so in two
  cases. A request sent through \<open>XMLHttpRequest\<close> to the empty URL (the address of the page
  itself), with logging on and no rule at all, is handed to the original \<open>send\<close> but is not
  logged, because the empty string fails the guard \<open>if (url && method)\<close>; the same request
  through \<open>fetch\<close> is logged. And a \<open>POST\<close> request passed to \<open>fetch\<close> as a \<open>Request\<close> object, which
  the only rule, a \<open>GET\<close> rule, does not match, is logged as matched and answered with the
  mock, because the wrapper reads the method from its second argument only.
\<close>

theorem unmatched_request_not_passed_through:
  "logRequests (demoConfig [])
   \<and> matchRule samplePlatform (demoConfig []) [] ''GET'' = None
   \<and> sr_logs (xhrSend samplePlatform (demoConfig []) ''id1'' 0 [] (openedXHR [] ''GET'') ()) = []
   \<and> sr_action (xhrSend samplePlatform (demoConfig []) ''id1'' 0 [] (openedXHR [] ''GET'') ())
       = OriginalSend ()
   \<and> fr_logs (interceptFetch samplePlatform (\<lambda>i n. (i, n)) (demoConfig []) ''id1'' 0 []
        (InputString []) (None :: RequestInit option))
       = [\<lparr> log_id = ''id1'', timestamp = 0, url = [], log_method = ''GET'',
             matched = False, ruleId = None \<rparr>]
   \<and> matchRule samplePlatform (demoConfig [userRule]) ''/api/user/info'' ''POST'' = None
   \<and> interceptFetch samplePlatform (\<lambda>i n. (i, n)) (demoConfig [userRule]) ''id1'' 0 []
        (InputRequest ''/api/user/info'' ''POST'') (None :: RequestInit option)
       = \<lparr> fr_logs = [\<lparr> log_id = ''id1'', timestamp = 0, url = ''/api/user/info'',
                         log_method = ''GET'', matched = True, ruleId = Some ''r1'' \<rparr>],
           fr_delay = None,
           fr_outcome = Resolved \<lparr> body = ''{\"id\":1}'', resp_status = 200,
                                    resp_statusText = ''OK'',
                                    headers = [(''Content-Type'', ''application/json'')] \<rparr> \<rparr>"
proof -
  have x: "sr_logs (xhrSend samplePlatform (demoConfig []) ''id1'' 0 [] (openedXHR [] ''GET'') ()) = []
      \<and> sr_action (xhrSend samplePlatform (demoConfig []) ''id1'' 0 [] (openedXHR [] ''GET'') ())
          = OriginalSend ()"
    by (simp add: xhrSend_def openedXHR_def)
  have l: "logRequests (demoConfig [])
      \<and> matchRule samplePlatform (demoConfig []) [] ''GET'' = None"
    by (simp add: demoConfig_def matchRule_def)
  have f: "fr_logs (interceptFetch samplePlatform (\<lambda>i n. (i, n)) (demoConfig []) ''id1'' 0 []
        (InputString []) (None :: RequestInit option))
       = [\<lparr> log_id = ''id1'', timestamp = 0, url = [], log_method = ''GET'',
             matched = False, ruleId = None \<rparr>]"
    by code_simp
  have p: "matchRule samplePlatform (demoConfig [userRule]) ''/api/user/info'' ''POST'' = None"
    by code_simp
  have r: "interceptFetch samplePlatform (\<lambda>i n. (i, n)) (demoConfig [userRule]) ''id1'' 0 []
        (InputRequest ''/api/user/info'' ''POST'') (None :: RequestInit option)
       = \<lparr> fr_logs = [\<lparr> log_id = ''id1'', timestamp = 0, url = ''/api/user/info'',
                         log_method = ''GET'', matched = True, ruleId = Some ''r1'' \<rparr>],
           fr_delay = None,
           fr_outcome = Resolved \<lparr> body = ''{\"id\":1}'', resp_status = 200,
                                    resp_statusText = ''OK'',
                                    headers = [(''Content-Type'', ''application/json'')] \<rparr> \<rparr>"
    by code_simp
  from x l f p r show ?thesis
    by blast
qed

end
